theory Spec2Isabelle
  imports Main "HOL-Library.Word"
begin

section \<open>Data model of the recorder component (AudioRecorder.jsx)\<close>

text \<open>
  A \<open>Blob\<close> is an immutable byte sequence with a MIME type. The chunks handed to
  \<open>ondataavailable\<close> (\<open>event.data\<close>) are blobs themselves, and so is the recording
  built from them. A blob object is truthy in JavaScript whatever its size; only
  \<open>null\<close> is falsy, so the React state \<open>recordedBlob\<close> is a \<open>blob option\<close> and
  \<open>!recordedBlob\<close> is \<open>recordedBlob = None\<close>.
\<close>

type_synonym byte = "8 word"

record blob =
  blob_bytes :: "byte list"
  blob_type :: string

definition blob_size :: "blob \<Rightarrow> nat" where
  "blob_size b = length (blob_bytes b)"

text \<open>\<open>new Blob(parts, { type })\<close>: the bytes of the parts, one after the other.\<close>

definition new_Blob :: "blob list \<Rightarrow> string \<Rightarrow> blob" where
  "new_Blob parts ty = \<lparr>blob_bytes = concat (map blob_bytes parts), blob_type = ty\<rparr>"

text \<open>\<open>new File([blob], name, { type })\<close>.\<close>

record upload_file =
  file_name :: string
  file_content :: blob

definition new_File :: "blob list \<Rightarrow> string \<Rightarrow> string \<Rightarrow> upload_file" where
  "new_File parts name ty = \<lparr>file_name = name, file_content = new_Blob parts ty\<rparr>"

text \<open>A thrown JavaScript error: its \<open>name\<close> and its \<open>message\<close>.\<close>

datatype js_error = JsError (err_name: string) (err_message: string)

text \<open>
  The browser objects the component holds references to. A \<open>MediaRecorder\<close> has a
  \<open>state\<close> and records one \<open>MediaStream\<close>; the objects live in stores (lists indexed
  by object identity), because a recorder that is no longer referenced by
  \<open>mediaRecorder.current\<close> keeps existing and keeps its stream open.
\<close>

datatype recording_state = Inactive | Recording | Paused

record recorder =
  rec_state :: recording_state
  rec_stream :: nat

text \<open>One \<open>fetch\<close> call: a multipart POST with one file field.\<close>

record request =
  req_method :: string
  req_path :: string
  req_field :: string
  req_file :: upload_file

text \<open>
  The component state: the five \<open>useState\<close> cells, the three \<open>useRef\<close> cells, and the
  part of the browser the handlers act on (media streams with their live flag,
  recorders, running interval timers, requests sent).
\<close>

record state =
  isRecording :: bool
  isProcessing :: bool
  error :: "string option"
  recordedBlob :: "blob option"
  recordingDuration :: nat
  mediaRecorder :: "nat option"
  audioChunks :: "blob list"
  recordingTimer :: "nat option"
  streams :: "bool list"
  recorders :: "recorder list"
  intervals :: "nat list"
  next_interval :: nat
  requests :: "request list"

definition initial_state :: state where
  "initial_state = \<lparr>isRecording = False, isProcessing = False, error = None,
     recordedBlob = None, recordingDuration = 0, mediaRecorder = None,
     audioChunks = [], recordingTimer = None, streams = [], recorders = [],
     intervals = [], next_interval = 1, requests = []\<rparr>"

section \<open>startRecording\<close>

text \<open>
  What the browser does during one call of \<open>startRecording\<close>: \<open>getUserMedia\<close> rejects,
  or the \<open>MediaRecorder\<close> constructor throws, or \<open>start()\<close> throws, or everything
  succeeds.
\<close>

datatype start_env =
    MediaRejected js_error
  | CtorThrows js_error
  | StartThrows js_error
  | Started

text \<open>\<open>await getUserMedia(...)\<close> resolved: a new live stream.\<close>

definition open_stream :: "state \<Rightarrow> state" where
  "open_stream s = s\<lparr>streams := streams s @ [True]\<rparr>"

text \<open>Lines 32-35: clear previous recording.\<close>

definition clear_previous :: "state \<Rightarrow> state" where
  "clear_previous s = s\<lparr>audioChunks := [], recordedBlob := None, recordingDuration := 0\<rparr>"

text \<open>Lines 37-61: a new, inactive recorder on the stream just opened, with its handlers.\<close>

definition create_recorder :: "state \<Rightarrow> state" where
  "create_recorder s =
     s\<lparr>recorders := recorders s @ [\<lparr>rec_state = Inactive, rec_stream = length (streams s) - 1\<rparr>],
       mediaRecorder := Some (length (recorders s))\<rparr>"

definition set_rec_state :: "nat \<Rightarrow> recording_state \<Rightarrow> state \<Rightarrow> state" where
  "set_rec_state i st s =
     (if i < length (recorders s)
      then s\<lparr>recorders := (recorders s)[i := (recorders s ! i)\<lparr>rec_state := st\<rparr>]\<rparr>
      else s)"

text \<open>Lines 63-65: \<open>mediaRecorder.current.start(); setIsRecording(true)\<close>.\<close>

definition begin_capture :: "state \<Rightarrow> state" where
  "begin_capture s =
     (case mediaRecorder s of
        None \<Rightarrow> s
      | Some i \<Rightarrow> (set_rec_state i Recording s)\<lparr>isRecording := True\<rparr>)"

text \<open>Lines 67-70: \<open>recordingTimer.current = setInterval(..., 1000)\<close>.\<close>

definition start_timer :: "state \<Rightarrow> state" where
  "start_timer s =
     s\<lparr>intervals := intervals s @ [next_interval s],
       recordingTimer := Some (next_interval s),
       next_interval := next_interval s + 1\<rparr>"

text \<open>Lines 74-83: the catch block.\<close>

definition start_error_message :: "js_error \<Rightarrow> string" where
  "start_error_message e =
     (if err_name e = ''NotAllowedError''
      then ''Microphone access denied. Please allow microphone access and try again.''
      else if err_name e = ''NotFoundError''
      then ''No microphone found. Please connect a microphone and try again.''
      else ''Failed to start recording: '' @ err_message e)"

definition start_catch :: "js_error \<Rightarrow> state \<Rightarrow> state" where
  "start_catch e s = s\<lparr>error := Some (start_error_message e)\<rparr>"

definition startRecording :: "start_env \<Rightarrow> state \<Rightarrow> state" where
  "startRecording env s =
     (case env of
        MediaRejected e \<Rightarrow> start_catch e s
      | CtorThrows e \<Rightarrow> start_catch e (clear_previous (open_stream s))
      | StartThrows e \<Rightarrow> start_catch e (create_recorder (clear_previous (open_stream s)))
      | Started \<Rightarrow> start_timer (begin_capture (create_recorder (clear_previous (open_stream s)))))"

section \<open>The recorder's event handlers, the timer, stopRecording\<close>

text \<open>Lines 42-46: \<open>ondataavailable\<close>.\<close>

definition ondataavailable :: "blob \<Rightarrow> state \<Rightarrow> state" where
  "ondataavailable data s =
     (if blob_size data > 0 then s\<lparr>audioChunks := audioChunks s @ [data]\<rparr> else s)"

text \<open>Lines 68-70: one tick of interval \<open>t\<close>; a cleared interval no longer fires.\<close>

definition tick :: "nat \<Rightarrow> state \<Rightarrow> state" where
  "tick t s =
     (if t \<in> set (intervals s) then s\<lparr>recordingDuration := recordingDuration s + 1\<rparr> else s)"

text \<open>
  Lines 48-61: \<open>onstop\<close> of the recorder that recorded stream \<open>sid\<close>: build the blob
  from the shared chunk buffer, stop the tracks of that stream, clear the timer.
\<close>

definition stop_tracks :: "nat \<Rightarrow> state \<Rightarrow> state" where
  "stop_tracks sid s =
     (if sid < length (streams s) then s\<lparr>streams := (streams s)[sid := False]\<rparr> else s)"

definition clear_timer :: "state \<Rightarrow> state" where
  "clear_timer s =
     (case recordingTimer s of
        None \<Rightarrow> s
      | Some t \<Rightarrow>
          if t \<noteq> 0
          then s\<lparr>intervals := removeAll t (intervals s), recordingTimer := None\<rparr>
          else s)"

definition onstop :: "nat \<Rightarrow> state \<Rightarrow> state" where
  "onstop sid s =
     clear_timer (stop_tracks sid
       (s\<lparr>recordedBlob := Some (new_Blob (audioChunks s) ''audio/webm'')\<rparr>))"

text \<open>
  \<open>MediaRecorder.stop()\<close> on recorder \<open>i\<close>, as the browser performs it: the recorder
  becomes inactive, a last \<open>dataavailable\<close> event delivers the data gathered since
  the previous one (\<open>final\<close>), then the \<open>stop\<close> event fires.
\<close>

definition MediaRecorder_stop :: "nat \<Rightarrow> blob \<Rightarrow> state \<Rightarrow> state" where
  "MediaRecorder_stop i final s =
     (if i < length (recorders s)
      then onstop (rec_stream (recorders s ! i))
             (ondataavailable final (set_rec_state i Inactive s))
      else s)"

text \<open>Lines 86-94.\<close>

definition stopRecording :: "blob \<Rightarrow> state \<Rightarrow> state" where
  "stopRecording final s =
     (case mediaRecorder s of
        None \<Rightarrow> s
      | Some i \<Rightarrow>
          if i < length (recorders s) \<and> rec_state (recorders s ! i) \<noteq> Inactive
          then MediaRecorder_stop i final s
          else s)\<lparr>isRecording := False\<rparr>"

text \<open>Lines 158-162 and 170-172.\<close>

definition discardRecording :: "state \<Rightarrow> state" where
  "discardRecording s = s\<lparr>recordedBlob := None, recordingDuration := 0, error := None\<rparr>"

definition handleCloseError :: "state \<Rightarrow> state" where
  "handleCloseError s = s\<lparr>error := None\<rparr>"

section \<open>uploadAndTranscribe\<close>

text \<open>
  Lines 109-117: the request sent by \<open>fetch(API_ENDPOINTS.UPLOAD_AUDIO, ...)\<close>; the path
  is relative to the configured base URL.
\<close>

definition upload_request :: "blob \<Rightarrow> request" where
  "upload_request b =
     \<lparr>req_method = ''POST'', req_path = ''/upload-audio'', req_field = ''file'',
      req_file = new_File [b] ''recording.webm'' ''audio/webm''\<rparr>"

text \<open>
  What comes back from the network. \<open>fetch\<close> rejects (no connection); or the response
  has a non-success status, a status text and a body; or the response is a success and
  \<open>response.json()\<close> either rejects or yields the parsed body.

  The body of an error response, as lines 120-121 see it: \<open>json()\<close> rejected; or it
  parsed to \<open>null\<close>, where reading \<open>.detail\<close> throws a TypeError with the engine's
  message; or it parsed to a value without a \<open>detail\<close> property; or it has a \<open>detail\<close>.
  Line 121 uses two things of the \<open>detail\<close> value: whether it is truthy (the left
  side of \<open>||\<close>), and the string that \<open>new Error(detail)\<close> makes of it. So the
  number 0 is \<open>BodyDetail False\<close> with the string 0, the empty array is
  \<open>BodyDetail True\<close> with the empty string, a non-empty string is \<open>BodyDetail True\<close>
  with itself, and the empty string is \<open>BodyDetail False\<close> with itself.
\<close>

datatype error_body =
    BodyUnparseable
  | BodyNull string
  | BodyNoDetail
  | BodyDetail bool string

datatype 'r http_outcome =
    FetchRejected js_error
  | HttpError nat string error_body
  | HttpOk "js_error + 'r"

text \<open>Decimal digits of a number, for the template \<open>HTTP ${response.status}\<close>.\<close>

definition digit_char :: "nat \<Rightarrow> char" where
  "digit_char d = ''0123456789'' ! d"

function string_of_nat :: "nat \<Rightarrow> string" where
  "string_of_nat n =
     (if n < 10 then [digit_char n] else string_of_nat (n div 10) @ [digit_char (n mod 10)])"
  by pat_completeness auto
termination
  by (relation "measure id") auto

declare string_of_nat.simps [simp del]

text \<open>Lines 120-121: the message of the \<open>Error\<close> thrown for a non-success response.\<close>

definition http_fallback :: "nat \<Rightarrow> string \<Rightarrow> string" where
  "http_fallback status statusText = ''HTTP '' @ string_of_nat status @ '': '' @ statusText"

definition http_error :: "nat \<Rightarrow> string \<Rightarrow> error_body \<Rightarrow> js_error" where
  "http_error status statusText body =
     (case body of
        BodyUnparseable \<Rightarrow> JsError ''Error'' ''Unknown error occurred''
      | BodyNull m \<Rightarrow> JsError ''TypeError'' m
      | BodyNoDetail \<Rightarrow> JsError ''Error'' (http_fallback status statusText)
      | BodyDetail truthy d \<Rightarrow>
          JsError ''Error'' (if truthy then d else http_fallback status statusText))"

text \<open>\<open>String.prototype.includes\<close>: the needle occurs as a contiguous substring.\<close>

fun starts_with :: "string \<Rightarrow> string \<Rightarrow> bool" where
  "starts_with hay [] = True"
| "starts_with [] (c # cs) = False"
| "starts_with (h # hs) (c # cs) = (h = c \<and> starts_with hs cs)"

fun str_includes :: "string \<Rightarrow> string \<Rightarrow> bool" where
  "str_includes [] needle = (needle = [])"
| "str_includes (h # hs) needle = (starts_with (h # hs) needle \<or> str_includes hs needle)"

text \<open>Lines 139-150: the user-facing message for a caught error message.\<close>

definition upload_error_message :: "string \<Rightarrow> string" where
  "upload_error_message message =
     (if str_includes message ''Failed to fetch''
      then ''Cannot connect to server. Please make sure the backend is running.''
      else if str_includes message ''File must be an audio file''
      then ''Invalid audio format. Please try recording again.''
      else if str_includes message ''Transcription failed''
      then ''Deepgram transcription failed. Please check your API key and account credits.''
      else ''Transcription failed: '' @ message)"

text \<open>Lines 97-100: the message the guard sets.\<close>

definition NoRecording :: string where
  "NoRecording = ''No recording available to upload''"

text \<open>Lines 102-117: the flags are set and the request leaves.\<close>

definition upload_begin :: "blob \<Rightarrow> state \<Rightarrow> state" where
  "upload_begin b s =
     s\<lparr>isProcessing := True, error := None, requests := requests s @ [upload_request b]\<rparr>"

text \<open>
  Lines 97-117: \<open>uploadAndTranscribe\<close> is an async function; a call runs without
  interruption up to \<open>await fetch(...)\<close>. The result is the state the component is
  rendered in from then on, and whether a request is now in flight.
\<close>

definition upload_call :: "state \<Rightarrow> state \<times> bool" where
  "upload_call s =
     (case recordedBlob s of
        None \<Rightarrow> (s\<lparr>error := Some NoRecording\<rparr>, False)
      | Some b \<Rightarrow> (upload_begin b s, True))"

text \<open>
  A value thrown inside the try block. What \<open>fetch\<close>, \<open>response.json()\<close> and
  \<open>new Error(...)\<close> throw is an error object with a string message. The completion
  callback is code of the caller: it may throw any value, and the catch block
  reads \<open>error.message.includes\<close> (line 142), which itself throws when the value
  has no string message.
\<close>

datatype thrown = ThrownError js_error | ThrownOther

text \<open>
  Lines 119-134, the rest of the try block, once the network has answered. The
  completion callback is a prop: it may be absent, it acts on the caller's state
  \<open>p\<close>, and it may throw. The result is the value thrown inside the block, if any,
  and the two states.
\<close>

type_synonym ('r, 'p) callback = "'r \<Rightarrow> 'p \<Rightarrow> 'p \<times> thrown option"

definition upload_try ::
  "('r, 'p) callback option \<Rightarrow> 'r http_outcome \<Rightarrow> state \<times> 'p \<Rightarrow> thrown option \<times> state \<times> 'p" where
  "upload_try onTranscriptionComplete outcome sp =
     (case sp of (s, p) \<Rightarrow>
      (case outcome of
         FetchRejected e \<Rightarrow> (Some (ThrownError e), s, p)
       | HttpError status statusText body \<Rightarrow>
           (Some (ThrownError (http_error status statusText body)), s, p)
       | HttpOk parsed \<Rightarrow>
           (case parsed of
              Inl e \<Rightarrow> (Some (ThrownError e), s, p)
            | Inr result \<Rightarrow>
                (case (case onTranscriptionComplete of
                         None \<Rightarrow> (p, None)
                       | Some f \<Rightarrow> f result p) of
                   (p', Some t) \<Rightarrow> (Some t, s, p')
                 | (p', None) \<Rightarrow>
                     (None, s\<lparr>recordedBlob := None, recordingDuration := 0\<rparr>, p')))))"

text \<open>
  Lines 136-155: catch and finally. When the thrown value has no string message,
  line 142 throws, \<open>setError\<close> (line 152) is not reached, and the finally block
  still runs.
\<close>

definition upload_settle ::
  "('r, 'p) callback option \<Rightarrow> 'r http_outcome \<Rightarrow> state \<times> 'p \<Rightarrow> state \<times> 'p" where
  "upload_settle onTranscriptionComplete outcome sp =
     (case upload_try onTranscriptionComplete outcome sp of
        (thrown, s, p) \<Rightarrow>
          ((case thrown of
              None \<Rightarrow> s
            | Some (ThrownError e) \<Rightarrow>
                s\<lparr>error := Some (upload_error_message (err_message e))\<rparr>
            | Some ThrownOther \<Rightarrow> s)
           \<lparr>isProcessing := False\<rparr>, p))"

text \<open>The whole call, with the answer of the network arriving right away.\<close>

definition uploadAndTranscribe ::
  "('r, 'p) callback option \<Rightarrow> 'r http_outcome \<Rightarrow> state \<times> 'p \<Rightarrow> state \<times> 'p" where
  "uploadAndTranscribe onTranscriptionComplete outcome sp =
     (case sp of (s, p) \<Rightarrow>
      (case upload_call s of
         (s1, in_flight) \<Rightarrow>
           if in_flight then upload_settle onTranscriptionComplete outcome (s1, p)
           else (s1, p)))"

section \<open>The controls rendered from the state\<close>

text \<open>Lines 178-210: the buttons, each with its click handler and its disabled flag.\<close>

datatype handler = StartRecording | StopRecording | UploadAndTranscribe | DiscardRecording

record button =
  onClick :: handler
  disabled :: bool

definition render_controls :: "state \<Rightarrow> button list" where
  "render_controls s =
     (if recordedBlob s = None
      then [\<lparr>onClick = (if isRecording s then StopRecording else StartRecording),
             disabled = isProcessing s\<rparr>]
      else [\<lparr>onClick = UploadAndTranscribe, disabled = isProcessing s\<rparr>,
            \<lparr>onClick = DiscardRecording, disabled = isProcessing s\<rparr>])"

section \<open>The transcript list of the application (App.jsx)\<close>

text \<open>
  A JavaScript property value: \<open>undefined\<close> (the property is missing), \<open>null\<close>, or a
  value. The handler reads three properties of the parsed response body.
\<close>

datatype 'v js = Undefined | Null | Val 'v

record 'v upload_result =
  res_transcript_id :: "'v js"
  res_text :: "'v js"
  res_status :: "'v js"

text \<open>
  The parsed body of a success response, as the handler sees it. Reading a
  property of \<open>null\<close> throws a TypeError (the string is the engine's message).
  Of any other value the three properties can be read; a property that the value
  does not have is \<open>undefined\<close>.
\<close>

datatype 'v parsed_body = ParsedNull string | Parsed "'v upload_result"

record ('v, 't) transcript =
  tr_id :: "'v js"
  tr_text :: "'v js"
  tr_status :: "'v js"
  tr_created_at :: 't
  tr_audio_url :: "'v js"

record ('v, 't) app_state =
  transcripts :: "('v, 't) transcript list"
  loading :: bool
  app_error :: "string option"

text \<open>
  Lines 38-44 of App.jsx. \<open>now\<close> is \<open>new Date().toISOString()\<close>, the time of the
  call.
\<close>

definition newTranscript :: "'t \<Rightarrow> 'v upload_result \<Rightarrow> ('v, 't) transcript" where
  "newTranscript now result =
     \<lparr>tr_id = res_transcript_id result, tr_text = res_text result,
      tr_status = res_status result, tr_created_at = now, tr_audio_url = Null\<rparr>"

text \<open>
  Lines 34-50 of App.jsx, the \<open>onTranscriptionComplete\<close> prop of the recorder
  (line 81). The first property read, \<open>result.transcript_id\<close> (line 39), throws
  on \<open>null\<close>, before any state is set.
\<close>

definition handleTranscriptionComplete ::
  "'t \<Rightarrow> ('v parsed_body, ('v, 't) app_state) callback" where
  "handleTranscriptionComplete now result app =
     (case result of
        ParsedNull m \<Rightarrow> (app, Some (ThrownError (JsError ''TypeError'' m)))
      | Parsed r \<Rightarrow>
          (app\<lparr>transcripts := newTranscript now r # transcripts app, app_error := None\<rparr>,
           None))"


section \<open>The error snackbar\<close>

text \<open>Lines 252-261: the snackbar shows the error when \<open>!!error\<close> holds.\<close>

definition snackbar_open :: "state \<Rightarrow> bool" where
  "snackbar_open s = (case error s of None \<Rightarrow> False | Some m \<Rightarrow> m \<noteq> [])"

section \<open>Capture sessions and the states the component can reach\<close>







section \<open>Example states\<close>

definition chunk1 :: blob where
  "chunk1 = \<lparr>blob_bytes = [1, 2, 3], blob_type = ''audio/webm;codecs=opus''\<rparr>"

definition chunk2 :: blob where
  "chunk2 = \<lparr>blob_bytes = [4, 5], blob_type = ''audio/webm;codecs=opus''\<rparr>"

definition empty_chunk :: blob where
  "empty_chunk = \<lparr>blob_bytes = [], blob_type = ''audio/webm;codecs=opus''\<rparr>"

text \<open>A session in progress: started, one chunk delivered, one second elapsed.\<close>

definition active_session :: state where
  "active_session = tick 1 (ondataavailable chunk1 (startRecording Started initial_state))"

text \<open>The same session, stopped: a recording of five bytes, one second long.\<close>

definition recorded_session :: state where
  "recorded_session = stopRecording chunk2 active_session"

text \<open>A session stopped before the recorder had gathered any data.\<close>

definition empty_recording :: state where
  "empty_recording = stopRecording empty_chunk (startRecording Started initial_state)"

definition empty_app :: "(unit, nat) app_state" where
  "empty_app = \<lparr>transcripts = [], loading = False, app_error = None\<rparr>"

section \<open>Basic facts\<close>

lemmas start_defs = startRecording_def start_catch_def clear_previous_def open_stream_def
  create_recorder_def begin_capture_def set_rec_state_def start_timer_def

lemmas stop_defs = stopRecording_def MediaRecorder_stop_def onstop_def clear_timer_def
  stop_tracks_def set_rec_state_def ondataavailable_def

lemmas upload_defs = uploadAndTranscribe_def upload_call_def upload_settle_def upload_try_def
  upload_begin_def

lemma active_session_eval:
  "active_session =
     \<lparr>isRecording = True, isProcessing = False, error = None, recordedBlob = None,
      recordingDuration = 1, mediaRecorder = Some 0, audioChunks = [chunk1],
      recordingTimer = Some 1, streams = [True],
      recorders = [\<lparr>rec_state = Recording, rec_stream = 0\<rparr>], intervals = [1],
      next_interval = 2, requests = []\<rparr>"
  by (simp add: active_session_def initial_state_def tick_def ondataavailable_def
      blob_size_def chunk1_def start_defs)

lemma recorded_session_eval:
  "recorded_session =
     \<lparr>isRecording = False, isProcessing = False, error = None,
      recordedBlob = Some \<lparr>blob_bytes = [1, 2, 3, 4, 5], blob_type = ''audio/webm''\<rparr>,
      recordingDuration = 1, mediaRecorder = Some 0, audioChunks = [chunk1, chunk2],
      recordingTimer = None, streams = [False],
      recorders = [\<lparr>rec_state = Inactive, rec_stream = 0\<rparr>], intervals = [],
      next_interval = 2, requests = []\<rparr>"
  by (simp add: recorded_session_def active_session_eval stop_defs new_Blob_def
      blob_size_def chunk1_def chunk2_def)

lemma empty_recording_eval:
  "empty_recording =
     \<lparr>isRecording = False, isProcessing = False, error = None,
      recordedBlob = Some \<lparr>blob_bytes = [], blob_type = ''audio/webm''\<rparr>,
      recordingDuration = 0, mediaRecorder = Some 0, audioChunks = [],
      recordingTimer = None, streams = [False],
      recorders = [\<lparr>rec_state = Inactive, rec_stream = 0\<rparr>], intervals = [],
      next_interval = 2, requests = []\<rparr>"
  by (simp add: empty_recording_def initial_state_def stop_defs start_defs new_Blob_def
      blob_size_def empty_chunk_def)



lemma upload_error_message_nonempty: "upload_error_message m \<noteq> []"
  by (simp add: upload_error_message_def)

section \<open>Starting while a session is active\<close>

text \<open>
  Claim C1 says that \<open>start()\<close> during an active session is rejected and leaves the
  capture unaltered. \<open>startRecording\<close> has no guard on \<open>isRecording\<close>. What holds:
  while \<open>isRecording\<close> is set, no rendered control invokes \<open>startRecording\<close> (the
  record button is bound to \<open>stopRecording\<close>, and with a buffered blob only upload
  and discard are shown); and a start whose microphone request is rejected leaves
  the chunk buffer, the blob, the duration, the recorders and the streams as they
  were.
\<close>

theorem start_not_offered_while_recording:
  "(isRecording s \<longrightarrow> StartRecording \<notin> onClick ` set (render_controls s)) \<and>
   audioChunks (startRecording (MediaRejected e) s) = audioChunks s \<and>
   recordedBlob (startRecording (MediaRejected e) s) = recordedBlob s \<and>
   recordingDuration (startRecording (MediaRejected e) s) = recordingDuration s \<and>
   recorders (startRecording (MediaRejected e) s) = recorders s \<and>
   streams (startRecording (MediaRejected e) s) = streams s"
  by (simp add: render_controls_def startRecording_def start_catch_def)

text \<open>Witness for C1: the session in progress, with the microphone request denied.\<close>

theorem start_not_offered_while_recording_witness:
  "isRecording active_session \<and>
   map onClick (render_controls active_session) = [StopRecording] \<and>
   StartRecording \<notin> onClick ` set (render_controls active_session) \<and>
   audioChunks (startRecording (MediaRejected (JsError ''NotAllowedError'' ''Permission denied''))
      active_session) = [chunk1] \<and>
   recordingDuration (startRecording (MediaRejected (JsError ''NotAllowedError'' ''Permission denied''))
      active_session) = 1"
  using start_not_offered_while_recording
    [of active_session "JsError ''NotAllowedError'' ''Permission denied''"]
  by (simp add: active_session_eval render_controls_def)

text \<open>
  Counterexample for C1 as stated: \<open>startRecording\<close>, called on the session in
  progress with the microphone granted, empties the chunk buffer, resets the
  duration and starts a second recorder beside the first.
\<close>

theorem start_while_recording_counterexample:
  "isRecording active_session \<and>
   audioChunks active_session = [chunk1] \<and>
   audioChunks (startRecording Started active_session) = [] \<and>
   recordingDuration active_session = 1 \<and>
   recordingDuration (startRecording Started active_session) = 0 \<and>
   map rec_state (recorders (startRecording Started active_session)) = [Recording, Recording]"
  by (simp add: active_session_eval start_defs)

section \<open>The upload guard\<close>

text \<open>
  Claim C2 says that upload fails with NoRecording, without a request, when the
  buffered blob is absent or empty. The guard is \<open>!recordedBlob\<close>, which holds for
  \<open>null\<close> only. What holds: with no buffered blob, upload sets the NoRecording
  message and changes nothing else, so no request is sent; and upload right after
  discard does exactly that.
\<close>

theorem upload_without_blob_is_NoRecording:
  "(recordedBlob s = None \<longrightarrow>
      uploadAndTranscribe cb outcome (s, p) = (s\<lparr>error := Some NoRecording\<rparr>, p)) \<and>
   uploadAndTranscribe cb outcome (discardRecording s, p) =
      ((discardRecording s)\<lparr>error := Some NoRecording\<rparr>, p) \<and>
   requests (fst (uploadAndTranscribe cb outcome (discardRecording s, p))) = requests s"
  by (simp add: uploadAndTranscribe_def upload_call_def discardRecording_def)

text \<open>Witness for C2: the initial state, and the stopped session after a discard.\<close>

theorem upload_without_blob_is_NoRecording_witness:
  "recordedBlob initial_state = None \<and>
   uploadAndTranscribe (None :: (unit, unit) callback option) (HttpOk (Inr ())) (initial_state, ()) =
     (initial_state\<lparr>error := Some NoRecording\<rparr>, ()) \<and>
   error (fst (uploadAndTranscribe (None :: (unit, unit) callback option) (HttpOk (Inr ()))
     (discardRecording recorded_session, ()))) = Some NoRecording \<and>
   requests (fst (uploadAndTranscribe (None :: (unit, unit) callback option) (HttpOk (Inr ()))
     (discardRecording recorded_session, ()))) = []"
  using upload_without_blob_is_NoRecording
    [of initial_state "None :: (unit, unit) callback option" "HttpOk (Inr ())" "()"]
    upload_without_blob_is_NoRecording
    [of recorded_session "None :: (unit, unit) callback option" "HttpOk (Inr ())" "()"]
  by (simp add: initial_state_def recorded_session_eval discardRecording_def
      uploadAndTranscribe_def upload_call_def)

text \<open>
  Counterexample for C2 as stated: a session stopped before any data arrived leaves
  a blob of size zero; upload passes the guard and sends the request.
\<close>

theorem upload_empty_blob_counterexample:
  "recordedBlob empty_recording = Some \<lparr>blob_bytes = [], blob_type = ''audio/webm''\<rparr> \<and>
   blob_size \<lparr>blob_bytes = [], blob_type = ''audio/webm''\<rparr> = 0 \<and>
   requests (fst (uploadAndTranscribe (None :: (unit, unit) callback option) (HttpOk (Inr ()))
     (empty_recording, ()))) =
     [upload_request \<lparr>blob_bytes = [], blob_type = ''audio/webm''\<rparr>] \<and>
   error (fst (uploadAndTranscribe (None :: (unit, unit) callback option) (HttpOk (Inr ()))
     (empty_recording, ()))) = None"
  by (simp add: empty_recording_eval upload_defs blob_size_def)

section \<open>Failed uploads\<close>

lemma upload_fetch_rejected:
  "recordedBlob s = Some b \<Longrightarrow> uploadAndTranscribe cb (FetchRejected e) (s, p) =
     (s\<lparr>isProcessing := False, error := Some (upload_error_message (err_message e)),
        requests := requests s @ [upload_request b]\<rparr>, p)"
  by (simp add: upload_defs)

lemma upload_http_error:
  "recordedBlob s = Some b \<Longrightarrow>
   uploadAndTranscribe cb (HttpError status statusText body) (s, p) =
     (s\<lparr>isProcessing := False,
        error := Some (upload_error_message (err_message (http_error status statusText body))),
        requests := requests s @ [upload_request b]\<rparr>, p)"
  by (simp add: upload_defs)

text \<open>
  Claim C3: when the upload fails in transport (\<open>fetch\<close> rejects) or with a
  non-success status, the error snackbar is shown and the buffered blob and the
  recorded duration are what they were, so the recording can be sent again. The
  completion callback is not called.
\<close>

theorem failed_upload_keeps_recording:
  assumes "outcome = FetchRejected e \<or> outcome = HttpError status statusText body"
  shows "snackbar_open (fst (uploadAndTranscribe cb outcome (s, p))) \<and>
         recordedBlob (fst (uploadAndTranscribe cb outcome (s, p))) = recordedBlob s \<and>
         recordingDuration (fst (uploadAndTranscribe cb outcome (s, p))) = recordingDuration s \<and>
         snd (uploadAndTranscribe cb outcome (s, p)) = p"
proof (cases "recordedBlob s")
  case None
  then show ?thesis
    by (simp add: uploadAndTranscribe_def upload_call_def snackbar_open_def NoRecording_def)
next
  case (Some b)
  from assms show ?thesis
  proof
    assume "outcome = FetchRejected e"
    with Some show ?thesis
      by (simp add: upload_fetch_rejected snackbar_open_def upload_error_message_nonempty)
  next
    assume "outcome = HttpError status statusText body"
    with Some show ?thesis
      by (simp add: upload_http_error snackbar_open_def upload_error_message_nonempty)
  qed
qed

text \<open>Witness for C3: the stopped session, answered with a 500 of the gateway.\<close>

theorem failed_upload_keeps_recording_witness:
  "error (fst (uploadAndTranscribe (Some (handleTranscriptionComplete 7))
      (HttpError 500 ''Internal Server Error'' (BodyDetail True ''Transcription failed: no credits''))
      (recorded_session, empty_app))) =
     Some ''Deepgram transcription failed. Please check your API key and account credits.'' \<and>
   snackbar_open (fst (uploadAndTranscribe (Some (handleTranscriptionComplete 7))
      (HttpError 500 ''Internal Server Error'' (BodyDetail True ''Transcription failed: no credits''))
      (recorded_session, empty_app))) \<and>
   recordedBlob (fst (uploadAndTranscribe (Some (handleTranscriptionComplete 7))
      (HttpError 500 ''Internal Server Error'' (BodyDetail True ''Transcription failed: no credits''))
      (recorded_session, empty_app))) =
     Some \<lparr>blob_bytes = [1, 2, 3, 4, 5], blob_type = ''audio/webm''\<rparr> \<and>
   recordingDuration (fst (uploadAndTranscribe (Some (handleTranscriptionComplete 7))
      (HttpError 500 ''Internal Server Error'' (BodyDetail True ''Transcription failed: no credits''))
      (recorded_session, empty_app))) = 1"
  using failed_upload_keeps_recording
    [of "HttpError 500 ''Internal Server Error'' (BodyDetail True ''Transcription failed: no credits'')"
        "JsError [] []" 500 "''Internal Server Error''"
        "BodyDetail True ''Transcription failed: no credits''"
        "Some (handleTranscriptionComplete 7)" recorded_session empty_app]
  by (simp add: recorded_session_eval upload_defs http_error_def upload_error_message_def)

section \<open>Successful uploads\<close>

text \<open>
  Claim C4 says that every upload that receives a success response forwards the
  parsed body to the completion callback and then clears the blob and resets the
  duration. The whole of it runs inside the try block. What holds, for an upload
  that found a buffered blob: when the body of the success response parses and
  the callback returns without throwing (or no callback was given), the callback
  has been applied to the parsed body, the blob is cleared, the duration is zero
  and no error is set; when the callback throws, its effect on the caller's state
  stays, the blob and the duration are kept, and the message made from the thrown
  error is set if the thrown value has a string message (none is set otherwise);
  when \<open>response.json()\<close> rejects, the callback is not called, the blob and the
  duration are kept and the message made from the rejection is set.
\<close>

theorem successful_upload_forwards_and_clears:
  assumes "recordedBlob s = Some b"
  shows
   "(f result p = (p', None) \<longrightarrow>
       uploadAndTranscribe (Some f) (HttpOk (Inr result)) (s, p) =
         (s\<lparr>isProcessing := False, error := None,
            requests := requests s @ [upload_request b],
            recordedBlob := None, recordingDuration := 0\<rparr>, p')) \<and>
    uploadAndTranscribe None (HttpOk (Inr result)) (s, p) =
      (s\<lparr>isProcessing := False, error := None,
         requests := requests s @ [upload_request b],
         recordedBlob := None, recordingDuration := 0\<rparr>, p) \<and>
    (f result p = (p', Some t) \<longrightarrow>
       uploadAndTranscribe (Some f) (HttpOk (Inr result)) (s, p) =
         (s\<lparr>isProcessing := False,
            error := (case t of
                        ThrownError e' \<Rightarrow> Some (upload_error_message (err_message e'))
                      | ThrownOther \<Rightarrow> None),
            requests := requests s @ [upload_request b]\<rparr>, p')) \<and>
    uploadAndTranscribe cb (HttpOk (Inl e)) (s, p) =
      (s\<lparr>isProcessing := False, error := Some (upload_error_message (err_message e)),
         requests := requests s @ [upload_request b]\<rparr>, p)"
  using assms by (simp add: upload_defs split: thrown.splits)

text \<open>
  Witness for C4: the stopped session with the handler of the application as the
  callback; a response with an id and a text, and a response whose body is
  \<open>null\<close>, on which the handler throws.
\<close>

theorem successful_upload_forwards_and_clears_witness:
  "recordedBlob recorded_session = Some \<lparr>blob_bytes = [1, 2, 3, 4, 5], blob_type = ''audio/webm''\<rparr> \<and>
   snd (handleTranscriptionComplete 7
      (Parsed \<lparr>res_transcript_id = Val (), res_text = Val (), res_status = Undefined\<rparr>)
      empty_app) = None \<and>
   recordedBlob (fst (uploadAndTranscribe (Some (handleTranscriptionComplete 7))
      (HttpOk (Inr (Parsed \<lparr>res_transcript_id = Val (), res_text = Val (), res_status = Undefined\<rparr>)))
      (recorded_session, empty_app))) = None \<and>
   recordingDuration (fst (uploadAndTranscribe (Some (handleTranscriptionComplete 7))
      (HttpOk (Inr (Parsed \<lparr>res_transcript_id = Val (), res_text = Val (), res_status = Undefined\<rparr>)))
      (recorded_session, empty_app))) = 0 \<and>
   transcripts (snd (uploadAndTranscribe (Some (handleTranscriptionComplete 7))
      (HttpOk (Inr (Parsed \<lparr>res_transcript_id = Val (), res_text = Val (), res_status = Undefined\<rparr>)))
      (recorded_session, empty_app))) =
     [\<lparr>tr_id = Val (), tr_text = Val (), tr_status = Undefined, tr_created_at = 7,
       tr_audio_url = Null\<rparr>] \<and>
   snd (handleTranscriptionComplete 7 (ParsedNull ''result is null'') empty_app) =
     Some (ThrownError (JsError ''TypeError'' ''result is null'')) \<and>
   recordedBlob (fst (uploadAndTranscribe (Some (handleTranscriptionComplete 7))
      (HttpOk (Inr (ParsedNull ''result is null''))) (recorded_session, empty_app))) =
     Some \<lparr>blob_bytes = [1, 2, 3, 4, 5], blob_type = ''audio/webm''\<rparr> \<and>
   recordingDuration (fst (uploadAndTranscribe (Some (handleTranscriptionComplete 7))
      (HttpOk (Inr (ParsedNull ''result is null''))) (recorded_session, empty_app))) = 1 \<and>
   error (fst (uploadAndTranscribe (Some (handleTranscriptionComplete 7))
      (HttpOk (Inr (ParsedNull ''result is null''))) (recorded_session, empty_app))) =
     Some ''Transcription failed: result is null''"
  using successful_upload_forwards_and_clears
    [of recorded_session "\<lparr>blob_bytes = [1, 2, 3, 4, 5], blob_type = ''audio/webm''\<rparr>"
        "handleTranscriptionComplete 7"
        "Parsed \<lparr>res_transcript_id = Val (), res_text = Val (), res_status = Undefined\<rparr>"
        empty_app
        "fst (handleTranscriptionComplete 7
           (Parsed \<lparr>res_transcript_id = Val (), res_text = Val (), res_status = Undefined\<rparr>)
           empty_app)"
        ThrownOther
        "Some (handleTranscriptionComplete 7)"
        "JsError ''SyntaxError'' ''Unexpected end of JSON input''"]
    successful_upload_forwards_and_clears
    [of recorded_session "\<lparr>blob_bytes = [1, 2, 3, 4, 5], blob_type = ''audio/webm''\<rparr>"
        "handleTranscriptionComplete 7"
        "ParsedNull ''result is null''"
        empty_app
        empty_app
        "ThrownError (JsError ''TypeError'' ''result is null'')"
        "Some (handleTranscriptionComplete 7)"
        "JsError ''SyntaxError'' ''Unexpected end of JSON input''"]
  by (simp add: recorded_session_eval handleTranscriptionComplete_def newTranscript_def
      empty_app_def upload_error_message_def)

text \<open>
  Counterexample for C4 as stated: a success response whose body is not JSON.
  \<open>response.json()\<close> rejects, the catch block runs: the callback is never called
  and the blob and the duration stay.
\<close>

theorem successful_upload_counterexample:
  "recordedBlob (fst (uploadAndTranscribe (Some (handleTranscriptionComplete 7))
      (HttpOk (Inl (JsError ''SyntaxError'' ''Unexpected end of JSON input'')))
      (recorded_session, empty_app))) =
     Some \<lparr>blob_bytes = [1, 2, 3, 4, 5], blob_type = ''audio/webm''\<rparr> \<and>
   recordingDuration (fst (uploadAndTranscribe (Some (handleTranscriptionComplete 7))
      (HttpOk (Inl (JsError ''SyntaxError'' ''Unexpected end of JSON input'')))
      (recorded_session, empty_app))) = 1 \<and>
   error (fst (uploadAndTranscribe (Some (handleTranscriptionComplete 7))
      (HttpOk (Inl (JsError ''SyntaxError'' ''Unexpected end of JSON input'')))
      (recorded_session, empty_app))) =
     Some ''Transcription failed: Unexpected end of JSON input'' \<and>
   transcripts (snd (uploadAndTranscribe (Some (handleTranscriptionComplete 7))
      (HttpOk (Inl (JsError ''SyntaxError'' ''Unexpected end of JSON input'')))
      (recorded_session, empty_app))) = []"
  by (simp add: recorded_session_eval upload_defs upload_error_message_def empty_app_def)

section \<open>Discarding\<close>

text \<open>
  Claim C6: in every state, discard clears the buffered blob and resets the
  recorded duration to zero, and no request is sent: the list of requests is what
  it was.
\<close>

theorem discard_clears_without_request:
  "recordedBlob (discardRecording s) = None \<and>
   recordingDuration (discardRecording s) = 0 \<and>
   requests (discardRecording s) = requests s"
  by (simp add: discardRecording_def)

text \<open>Witness for C6: discarding the stopped session.\<close>

theorem discard_clears_without_request_witness:
  "recordedBlob recorded_session \<noteq> None \<and>
   recordedBlob (discardRecording recorded_session) = None \<and>
   recordingDuration (discardRecording recorded_session) = 0 \<and>
   requests (discardRecording recorded_session) = []"
  using discard_clears_without_request [of recorded_session]
  by (simp add: recorded_session_eval)

section \<open>Classification of upload errors\<close>

text \<open>
  \<open>str_includes\<close> is the substring test: the haystack is some prefix, the needle,
  some suffix.
\<close>

lemma starts_with_iff: "starts_with hay needle \<longleftrightarrow> (\<exists>post. hay = needle @ post)"
  by (induction hay needle rule: starts_with.induct) auto

lemma str_includes_iff:
  "str_includes hay needle \<longleftrightarrow> (\<exists>pre post. hay = pre @ needle @ post)"
proof (induction hay)
  case Nil
  show ?case by simp
next
  case (Cons h hs)
  show ?case
  proof
    assume "str_includes (h # hs) needle"
    then consider "starts_with (h # hs) needle" | "str_includes hs needle" by auto
    then show "\<exists>pre post. h # hs = pre @ needle @ post"
    proof cases
      case 1
      then obtain post where "h # hs = needle @ post" by (auto simp: starts_with_iff)
      then have "h # hs = [] @ needle @ post" by simp
      then show ?thesis by blast
    next
      case 2
      with Cons obtain pre post where "hs = pre @ needle @ post" by blast
      then have "h # hs = (h # pre) @ needle @ post" by simp
      then show ?thesis by blast
    qed
  next
    assume "\<exists>pre post. h # hs = pre @ needle @ post"
    then obtain pre post where eq: "h # hs = pre @ needle @ post" by blast
    show "str_includes (h # hs) needle"
    proof (cases pre)
      case Nil
      with eq have "starts_with (h # hs) needle" by (auto simp: starts_with_iff)
      then show ?thesis by simp
    next
      case (Cons p ps)
      with eq have "hs = ps @ needle @ post" by simp
      with Cons.IH have "str_includes hs needle" by blast
      then show ?thesis by simp
    qed
  qed
qed

lemma starts_with_replicate: "k \<noteq> c \<Longrightarrow> \<not> starts_with (replicate n c) (k # ks)"
  by (cases n) simp_all

lemma str_includes_replicate: "k \<noteq> c \<Longrightarrow> \<not> str_includes (replicate n c) (k # ks)"
  by (induction n) (simp_all add: starts_with_replicate)

lemma upload_error_message_replicate:
  "upload_error_message (replicate n CHR ''x'') =
     ''Transcription failed: '' @ replicate n CHR ''x''"
  by (simp add: upload_error_message_def str_includes_replicate)

lemma upload_error_message_infinite: "\<not> finite (range upload_error_message)"
proof
  assume fin: "finite (range upload_error_message)"
  define g where "g = (\<lambda>n::nat. upload_error_message (replicate n CHR ''x''))"
  have "inj g"
    unfolding g_def upload_error_message_replicate
    by (rule injI) (auto dest: arg_cong[where f=length])
  then have inf: "infinite (range g)"
    using finite_imageD infinite_UNIV_nat by blast
  have "range g \<subseteq> range upload_error_message"
    unfolding g_def by blast
  then show False using fin inf finite_subset by blast
qed

text \<open>
  Claim C7 says that the message of a failed upload is classified into one of a
  fixed set of user-facing strings. Three of the four cases have a fixed string;
  the generic fallback is the prefix \<open>Transcription failed: \<close> followed by the
  message itself. What holds: the result is one of the three fixed strings or the
  prefixed message, and which one it is is decided by the first of the three
  substring tests that succeeds, so exactly one case applies.
\<close>

theorem upload_error_message_cases:
  "upload_error_message m \<in>
     {''Cannot connect to server. Please make sure the backend is running.'',
      ''Invalid audio format. Please try recording again.'',
      ''Deepgram transcription failed. Please check your API key and account credits.'',
      ''Transcription failed: '' @ m} \<and>
   (upload_error_message m = ''Cannot connect to server. Please make sure the backend is running.''
      \<longleftrightarrow> str_includes m ''Failed to fetch'') \<and>
   (upload_error_message m = ''Invalid audio format. Please try recording again.''
      \<longleftrightarrow> \<not> str_includes m ''Failed to fetch'' \<and> str_includes m ''File must be an audio file'') \<and>
   (upload_error_message m =
      ''Deepgram transcription failed. Please check your API key and account credits.''
      \<longleftrightarrow> \<not> str_includes m ''Failed to fetch'' \<and> \<not> str_includes m ''File must be an audio file''
          \<and> str_includes m ''Transcription failed'') \<and>
   (upload_error_message m = ''Transcription failed: '' @ m
      \<longleftrightarrow> \<not> str_includes m ''Failed to fetch'' \<and> \<not> str_includes m ''File must be an audio file''
          \<and> \<not> str_includes m ''Transcription failed'')"
  by (simp add: upload_error_message_def)

text \<open>Witness for C7: the message of a browser whose \<open>fetch\<close> found no server.\<close>

theorem upload_error_message_cases_witness:
  "str_includes ''TypeError: Failed to fetch'' ''Failed to fetch'' \<and>
   upload_error_message ''TypeError: Failed to fetch'' =
     ''Cannot connect to server. Please make sure the backend is running.''"
  using upload_error_message_cases [of "''TypeError: Failed to fetch''"]
  by simp

text \<open>
  Counterexample for C7 as stated: two messages of the generic case give two
  user-facing strings that contain them, and the strings the classification can
  produce are not a finite set.
\<close>

theorem upload_error_message_counterexample:
  "upload_error_message ''timeout'' = ''Transcription failed: timeout'' \<and>
   upload_error_message ''quota exceeded'' = ''Transcription failed: quota exceeded'' \<and>
   \<not> finite (range upload_error_message)"
  using upload_error_message_infinite by (simp add: upload_error_message_def)

section \<open>A successful start\<close>

text \<open>
  Claim C9: a start that succeeds discards what was buffered before, whatever the
  state it is called in: afterwards the chunk buffer is empty, the buffered blob
  is cleared and the duration is zero; the new session has begun (\<open>isRecording\<close>
  is set and \<open>mediaRecorder.current\<close> is a new recorder in state recording).
\<close>

theorem start_discards_previous_recording:
  "audioChunks (startRecording Started s) = [] \<and>
   recordedBlob (startRecording Started s) = None \<and>
   recordingDuration (startRecording Started s) = 0 \<and>
   isRecording (startRecording Started s) \<and>
   mediaRecorder (startRecording Started s) = Some (length (recorders s)) \<and>
   recorders (startRecording Started s) =
     recorders s @ [\<lparr>rec_state = Recording, rec_stream = length (streams s)\<rparr>]"
  by (simp add: start_defs)

text \<open>Witness for C9: a start on the stopped session, which holds a blob.\<close>

theorem start_discards_previous_recording_witness:
  "audioChunks recorded_session = [chunk1, chunk2] \<and>
   recordedBlob recorded_session \<noteq> None \<and>
   recordingDuration recorded_session = 1 \<and>
   audioChunks (startRecording Started recorded_session) = [] \<and>
   recordedBlob (startRecording Started recorded_session) = None \<and>
   recordingDuration (startRecording Started recorded_session) = 0 \<and>
   isRecording (startRecording Started recorded_session) \<and>
   mediaRecorder (startRecording Started recorded_session) = Some 1"
  using start_discards_previous_recording [of recorded_session]
  by (simp add: recorded_session_eval)

section \<open>The processing flag\<close>

lemma upload_settle_not_processing:
  "\<not> isProcessing (fst (upload_settle cb outcome sp))"
  by (simp add: upload_settle_def split: prod.splits option.splits thrown.splits)

lemma upload_settle_requests:
  "requests (fst (upload_settle cb outcome (s, p))) = requests s"
  by (simp add: upload_settle_def upload_try_def
      split: prod.splits option.splits thrown.splits http_outcome.splits sum.splits)

text \<open>
  Claim C10: a call of upload starts a request exactly when a blob is buffered,
  and then the call itself sets \<open>isProcessing\<close> before the request leaves, so that
  every control rendered while the request is in flight is disabled; no other
  handler or event changes the flag; and whatever the network answers (also when
  the body does not parse or the callback throws) and whatever state the answer
  finds, the flag is reset when the upload completes (the finally block), so that
  every control rendered afterwards is enabled. The whole call is the
  synchronous part followed by the completion, and it has sent one request.
\<close>

theorem upload_processing_flag:
  "(snd (upload_call s) \<longleftrightarrow> recordedBlob s \<noteq> None) \<and>
   (recordedBlob s = Some b \<longrightarrow>
      isProcessing (fst (upload_call s)) \<and>
      requests (fst (upload_call s)) = requests s @ [upload_request b] \<and>
      (\<forall>c \<in> set (render_controls (fst (upload_call s))). disabled c) \<and>
      uploadAndTranscribe cb outcome (s, p) = upload_settle cb outcome (fst (upload_call s), p) \<and>
      requests (fst (uploadAndTranscribe cb outcome (s, p))) = requests s @ [upload_request b] \<and>
      \<not> isProcessing (fst (uploadAndTranscribe cb outcome (s, p))) \<and>
      (\<forall>c \<in> set (render_controls (fst (uploadAndTranscribe cb outcome (s, p)))). \<not> disabled c)) \<and>
   \<not> isProcessing (fst (upload_settle cb outcome (s', p))) \<and>
   (\<forall>c \<in> set (render_controls (fst (upload_settle cb outcome (s', p)))). \<not> disabled c) \<and>
   isProcessing (startRecording env s) = isProcessing s \<and>
   isProcessing (stopRecording final s) = isProcessing s \<and>
   isProcessing (MediaRecorder_stop i final s) = isProcessing s \<and>
   isProcessing (ondataavailable data s) = isProcessing s \<and>
   isProcessing (tick t s) = isProcessing s \<and>
   isProcessing (discardRecording s) = isProcessing s \<and>
   isProcessing (handleCloseError s) = isProcessing s"
proof -
  have call: "snd (upload_call s) \<longleftrightarrow> recordedBlob s \<noteq> None"
    by (simp add: upload_call_def split: option.splits)
  have settle: "\<forall>c \<in> set (render_controls (fst (upload_settle cb outcome (s', p)))). \<not> disabled c"
    by (simp add: render_controls_def upload_settle_not_processing)
  have started: "recordedBlob s = Some b \<longrightarrow>
      isProcessing (fst (upload_call s)) \<and>
      requests (fst (upload_call s)) = requests s @ [upload_request b] \<and>
      (\<forall>c \<in> set (render_controls (fst (upload_call s))). disabled c) \<and>
      uploadAndTranscribe cb outcome (s, p) = upload_settle cb outcome (fst (upload_call s), p) \<and>
      requests (fst (uploadAndTranscribe cb outcome (s, p))) = requests s @ [upload_request b] \<and>
      \<not> isProcessing (fst (uploadAndTranscribe cb outcome (s, p))) \<and>
      (\<forall>c \<in> set (render_controls (fst (uploadAndTranscribe cb outcome (s, p)))). \<not> disabled c)"
    by (simp add: upload_call_def upload_begin_def uploadAndTranscribe_def render_controls_def
        upload_settle_not_processing upload_settle_requests)
  have start: "isProcessing (startRecording env s) = isProcessing s"
    by (cases env) (simp_all add: start_defs split: option.splits)
  have stop: "isProcessing (stopRecording final s) = isProcessing s"
    by (simp add: stop_defs split: option.splits)
  have ended: "isProcessing (MediaRecorder_stop i final s) = isProcessing s"
    by (simp add: stop_defs split: option.splits)
  have data: "isProcessing (ondataavailable data s) = isProcessing s"
    by (simp add: ondataavailable_def)
  have timer: "isProcessing (tick t s) = isProcessing s"
    by (simp add: tick_def)
  have discard: "isProcessing (discardRecording s) = isProcessing s"
    by (simp add: discardRecording_def)
  have close: "isProcessing (handleCloseError s) = isProcessing s"
    by (simp add: handleCloseError_def)
  show ?thesis
    by (intro conjI call started upload_settle_not_processing settle start stop ended data
        timer discard close)
qed

text \<open>
  Witness for C10: the stopped session. The call sets the flag and disables both
  buttons; after a rejected fetch the flag is reset and both buttons are enabled.
\<close>

theorem upload_processing_flag_witness:
  "recordedBlob recorded_session = Some \<lparr>blob_bytes = [1, 2, 3, 4, 5], blob_type = ''audio/webm''\<rparr> \<and>
   snd (upload_call recorded_session) \<and>
   \<not> isProcessing recorded_session \<and>
   isProcessing (fst (upload_call recorded_session)) \<and>
   render_controls (fst (upload_call recorded_session)) =
     [\<lparr>onClick = UploadAndTranscribe, disabled = True\<rparr>,
      \<lparr>onClick = DiscardRecording, disabled = True\<rparr>] \<and>
   \<not> isProcessing (fst (uploadAndTranscribe (None :: (unit, unit) callback option)
      (FetchRejected (JsError ''TypeError'' ''Failed to fetch'')) (recorded_session, ()))) \<and>
   render_controls (fst (uploadAndTranscribe (None :: (unit, unit) callback option)
      (FetchRejected (JsError ''TypeError'' ''Failed to fetch'')) (recorded_session, ()))) =
     [\<lparr>onClick = UploadAndTranscribe, disabled = False\<rparr>,
      \<lparr>onClick = DiscardRecording, disabled = False\<rparr>]"
  using upload_processing_flag
    [of recorded_session "\<lparr>blob_bytes = [1, 2, 3, 4, 5], blob_type = ''audio/webm''\<rparr>"
        "None :: (unit, unit) callback option"
        "FetchRejected (JsError ''TypeError'' ''Failed to fetch'')" "()"
        recorded_session Started empty_chunk 0 empty_chunk 0]
  by (simp add: recorded_session_eval upload_defs render_controls_def)

section \<open>The transcript list\<close>




section \<open>The chunk buffer and stopping\<close>






















end
